theory Spec2Isabelle
  imports Main
begin

section \<open>The browser environment of \<open>assets/site.js\<close>\<close>

text \<open>
  The script works on three pieces of browser state: the elements of the document, the
  \<open>lang\<close> attribute of the root element, and \<open>localStorage\<close>. It also reads the clock.

  An element is kept with the four attributes the script reads or writes: its \<open>id\<close>, its
  class list, the \<open>display\<close> property of its inline style (the empty string when the property
  is not set) and its text content. The elements of the document are a list in document
  order; a reference to an element, as held in a \<open>NodeList\<close> or returned by
  \<open>getElementById\<close>, is its position in that list, so that an element reached through two
  node lists is one and the same object.

  An assignment to \<open>textContent\<close> is a field update here: the elements that receive the year
  are taken to hold text only, and the removal of child nodes is not represented.
\<close>

record element =
  elem_id :: string
  classList :: "string list"
  display :: string
  textContent :: string

text \<open>
  \<open>localStorage\<close>: the stored items, and whether a read or a write raises (storage disabled
  or denied, quota exceeded). A raise is the value \<open>Inl\<close> of a result.
\<close>

datatype exn = DOMException

record storage =
  items :: "string \<rightharpoonup> string"
  getItem_throws :: bool
  setItem_throws :: bool

text \<open>
  The state: the elements, \<open>document.documentElement.lang\<close>, \<open>localStorage\<close>, and the
  year that \<open>new Date().getFullYear()\<close> answers.
\<close>

record world =
  elements :: "element list"
  lang :: string
  localStorage :: storage
  fullYear :: int

definition getItem :: "string \<Rightarrow> world \<Rightarrow> exn + string option" where
  "getItem k w =
     (if getItem_throws (localStorage w) then Inl DOMException
      else Inr (items (localStorage w) k))"

definition setItem :: "string \<Rightarrow> string \<Rightarrow> world \<Rightarrow> exn + world" where
  "setItem k v w =
     (if setItem_throws (localStorage w) then Inl DOMException
      else Inr (w\<lparr>localStorage := (localStorage w)\<lparr>items := (items (localStorage w))(k \<mapsto> v)\<rparr>\<rparr>))"

text \<open>
  Selectors: the script only uses a single class selector, a dot followed by the class
  name. Any other selector text matches nothing here.
\<close>

definition matches :: "string \<Rightarrow> element \<Rightarrow> bool" where
  "matches sel el =
     (case sel of [] \<Rightarrow> False | c # name \<Rightarrow> c = CHR ''.'' \<and> name \<in> set (classList el))"

definition querySelectorAll :: "string \<Rightarrow> world \<Rightarrow> nat list" where
  "querySelectorAll sel w =
     filter (\<lambda>i. matches sel (elements w ! i)) [0..<length (elements w)]"

text \<open>\<open>getElementById\<close> answers the first element in document order with the id, or null.\<close>

definition getElementById :: "string \<Rightarrow> world \<Rightarrow> nat option" where
  "getElementById ident w =
     find (\<lambda>i. elem_id (elements w ! i) = ident) [0..<length (elements w)]"

definition set_style_display :: "nat \<Rightarrow> string \<Rightarrow> world \<Rightarrow> world" where
  "set_style_display i v w =
     w\<lparr>elements := (elements w)[i := (elements w ! i)\<lparr>display := v\<rparr>]\<rparr>"

definition set_textContent :: "nat \<Rightarrow> string \<Rightarrow> world \<Rightarrow> world" where
  "set_textContent i v w =
     w\<lparr>elements := (elements w)[i := (elements w ! i)\<lparr>textContent := v\<rparr>]\<rparr>"

text \<open>\<open>NodeList.forEach\<close>: the callback runs on each node of the list in order.\<close>

definition forEach :: "nat list \<Rightarrow> (nat \<Rightarrow> world \<Rightarrow> world) \<Rightarrow> world \<Rightarrow> world" where
  "forEach nodes callback w = fold callback nodes w"

text \<open>
  \<open>String(n)\<close> for an integer \<open>n\<close>: its decimal digits, with a minus sign when negative.
\<close>

definition digit :: "nat \<Rightarrow> char" where
  "digit d = ''0123456789'' ! d"

fun digits :: "nat \<Rightarrow> string" where
  "digits n = (if n < 10 then [digit n] else digits (n div 10) @ [digit (n mod 10)])"

definition String :: "int \<Rightarrow> string" where
  "String n = (if n < 0 then CHR ''-'' # digits (nat (- n)) else digits (nat n))"

section \<open>The script\<close>

text \<open>
  \<^verbatim>\<open>function $all(selector) { return document.querySelectorAll(selector); }\<close>
\<close>

definition dollar_all :: "string \<Rightarrow> world \<Rightarrow> nat list" where
  "dollar_all selector w = querySelectorAll selector w"

text \<open>
  \<^verbatim>\<open>
  function setLang(next) {
    var fr = $all('.lang-fr');
    var en = $all('.lang-en');
    var showFR = next === 'fr';
    fr.forEach(function (el) { return (el.style.display = showFR ? '' : 'none'); });
    en.forEach(function (el) { return (el.style.display = showFR ? 'none' : ''); });
    document.documentElement.lang = showFR ? 'fr' : 'en';
    try { localStorage.setItem('portfolio_lang', showFR ? 'fr' : 'en'); }
    catch (_a) { }
  }
  \<close>
  The result is \<open>Inr\<close> of the new state when the function returns and \<open>Inl\<close> when it raises.
  The argument is a string: the source compares it with \<open>===\<close>, under which any other value
  behaves as a string different from \<open>fr\<close> does.
\<close>

definition setLang :: "string \<Rightarrow> world \<Rightarrow> exn + world" where
  "setLang next w =
     (let fr = dollar_all ''.lang-fr'' w;
          en = dollar_all ''.lang-en'' w;
          showFR = (next = ''fr'');
          w1 = forEach fr (\<lambda>el. set_style_display el (if showFR then '''' else ''none'')) w;
          w2 = forEach en (\<lambda>el. set_style_display el (if showFR then ''none'' else '''')) w1;
          w3 = w2\<lparr>lang := (if showFR then ''fr'' else ''en'')\<rparr>
      in case setItem ''portfolio_lang'' (if showFR then ''fr'' else ''en'') w3 of
           Inr w4 \<Rightarrow> Inr w4
         | Inl e \<Rightarrow> Inr w3)"

text \<open>
  \<^verbatim>\<open>
  window.toggleLanguage = function toggleLanguage() {
    var current = document.documentElement.lang === 'fr' ? 'fr' : 'en';
    setLang(current === 'fr' ? 'en' : 'fr');
  };
  \<close>
\<close>

definition toggleLanguage :: "world \<Rightarrow> exn + world" where
  "toggleLanguage w =
     (let current = (if lang w = ''fr'' then ''fr'' else ''en'')
      in setLang (if current = ''fr'' then ''en'' else ''fr'') w)"

text \<open>
  \<^verbatim>\<open>
  function init() {
    var y = String(new Date().getFullYear());
    var year = document.getElementById('year');
    var yearFr = document.getElementById('year-fr');
    if (year) year.textContent = y;
    if (yearFr) yearFr.textContent = y;
    var saved = 'en';
    try { saved = localStorage.getItem('portfolio_lang'); }
    catch (_a) { saved = 'en'; }
    setLang(saved === 'fr' ? 'fr' : 'en');
  }
  \<close>
  \<open>saved\<close> is a string or null: \<open>Some s\<close> or \<open>None\<close>. Its first value is never read: the
  \<open>try\<close> assigns what \<open>getItem\<close> returns and the \<open>catch\<close> assigns \<open>en\<close>. Both lookups are
  done before the first assignment, so both are made in the state \<open>init\<close> starts from.
\<close>

definition init :: "world \<Rightarrow> exn + world" where
  "init w =
     (let y = String (fullYear w);
          year = getElementById ''year'' w;
          yearFr = getElementById ''year-fr'' w;
          w1 = (case year of Some el \<Rightarrow> set_textContent el y w | None \<Rightarrow> w);
          w2 = (case yearFr of Some el \<Rightarrow> set_textContent el y w1 | None \<Rightarrow> w1);
          saved = (case getItem ''portfolio_lang'' w2 of
                     Inr v \<Rightarrow> v
                   | Inl e \<Rightarrow> Some ''en'')
      in setLang (if saved = Some ''fr'' then ''fr'' else ''en'') w2)"

section \<open>Vocabulary of the specification\<close>

text \<open>
  An element is tagged for French by the class \<open>lang-fr\<close> and for English by the class
  \<open>lang-en\<close>. It is visible when its inline \<open>display\<close> is cleared and hidden when its inline
  \<open>display\<close> is \<open>none\<close>.
\<close>

definition tagged_fr :: "element \<Rightarrow> bool" where
  "tagged_fr e = (''lang-fr'' \<in> set (classList e))"

definition tagged_en :: "element \<Rightarrow> bool" where
  "tagged_en e = (''lang-en'' \<in> set (classList e))"

definition tagged_for :: "string \<Rightarrow> element \<Rightarrow> bool" where
  "tagged_for v e = (if v = ''fr'' then tagged_fr e else tagged_en e)"

definition other :: "string \<Rightarrow> string" where
  "other v = (if v = ''fr'' then ''en'' else ''fr'')"

definition visible :: "element \<Rightarrow> bool" where
  "visible e = (display e = '''')"

definition hidden :: "element \<Rightarrow> bool" where
  "hidden e = (display e = ''none'')"

text \<open>
  \<open>language_shown_exactly v w\<close>: every element tagged for \<open>v\<close> is visible and every
  element tagged for the other language is hidden. An element that carries both tags
  cannot satisfy it.
\<close>

definition language_shown_exactly :: "string \<Rightarrow> world \<Rightarrow> bool" where
  "language_shown_exactly v w =
     list_all (\<lambda>e. (tagged_for v e \<longrightarrow> visible e) \<and> (tagged_for (other v) e \<longrightarrow> hidden e))
       (elements w)"

text \<open>
  \<open>language_shown v w\<close>: the same for the elements with one tag, while an element with
  both tags goes by its English tag: every English-tagged element is visible for English
  and hidden for French, and every element tagged for French only is visible for French
  and hidden for English. Any \<open>v\<close> other than \<open>fr\<close> reads as English, as in the source.
\<close>

definition language_shown :: "string \<Rightarrow> world \<Rightarrow> bool" where
  "language_shown v w =
     list_all (\<lambda>e. (tagged_en e \<longrightarrow> (if v = ''fr'' then hidden e else visible e)) \<and>
                    (tagged_fr e \<and> \<not> tagged_en e \<longrightarrow> (if v = ''fr'' then visible e else hidden e)))
       (elements w)"

definition single_tagged :: "world \<Rightarrow> bool" where
  "single_tagged w = list_all (\<lambda>e. \<not> (tagged_fr e \<and> tagged_en e)) (elements w)"

text \<open>The tagged elements that are visible, by position in the document.\<close>

definition visible_tagged :: "world \<Rightarrow> nat list" where
  "visible_tagged w =
     filter (\<lambda>i. (tagged_fr (elements w ! i) \<or> tagged_en (elements w ! i)) \<and> visible (elements w ! i))
       [0..<length (elements w)]"

text \<open>A call returns, and the state it leaves has the property.\<close>

definition returns_with :: "exn + world \<Rightarrow> (world \<Rightarrow> bool) \<Rightarrow> bool" where
  "returns_with r P = (case r of Inr w' \<Rightarrow> P w' | Inl e \<Rightarrow> False)"

text \<open>
  A language is applied when the \<open>lang\<close> attribute names it and the tagged elements show
  it; one language is active when the attribute is \<open>en\<close> or \<open>fr\<close> and that language is
  applied. Each comes in the two readings above.
\<close>

definition language_applied_exactly :: "string \<Rightarrow> world \<Rightarrow> bool" where
  "language_applied_exactly v w = (lang w = v \<and> language_shown_exactly v w)"

definition language_applied :: "string \<Rightarrow> world \<Rightarrow> bool" where
  "language_applied v w = (lang w = v \<and> language_shown v w)"

definition one_language_active_exactly :: "world \<Rightarrow> bool" where
  "one_language_active_exactly w =
     ((lang w = ''en'' \<or> lang w = ''fr'') \<and> language_shown_exactly (lang w) w)"

definition one_language_active :: "world \<Rightarrow> bool" where
  "one_language_active w = ((lang w = ''en'' \<or> lang w = ''fr'') \<and> language_shown (lang w) w)"

text \<open>Two calls of \<open>toggleLanguage\<close> in a row return, and the visible set is the one before.\<close>

definition two_toggles_restore :: "world \<Rightarrow> bool" where
  "two_toggles_restore w =
     (case toggleLanguage w of
        Inr w1 \<Rightarrow> returns_with (toggleLanguage w1) (\<lambda>w2. visible_tagged w2 = visible_tagged w)
      | Inl e \<Rightarrow> False)"

text \<open>
  The year elements, as \<open>getElementById\<close> finds them in \<open>w\<close>, are the same in \<open>w'\<close>.
\<close>

definition year_elements_unmodified :: "world \<Rightarrow> world \<Rightarrow> bool" where
  "year_elements_unmodified w w' =
     list_all (\<lambda>ident. case getElementById ident w of
                           Some el \<Rightarrow> elements w' ! el = elements w ! el
                         | None \<Rightarrow> True)
       [''year'', ''year-fr'']"

text \<open>The value of a string of decimal digits.\<close>

definition decimal :: "string \<Rightarrow> nat" where
  "decimal s = foldl (\<lambda>n c. 10 * n + (of_char c - 48)) 0 s"

text \<open>
  What a call may have done to \<open>localStorage\<close>: nothing when the write raises, and
  otherwise the key \<open>portfolio_lang\<close> set to \<open>en\<close> or to \<open>fr\<close> and nothing else.
\<close>

definition wrote_en_or_fr :: "world \<Rightarrow> world \<Rightarrow> bool" where
  "wrote_en_or_fr w w' =
     (if setItem_throws (localStorage w) then localStorage w' = localStorage w
      else localStorage w' =
             (localStorage w)\<lparr>items := (items (localStorage w))(''portfolio_lang'' \<mapsto> ''en'')\<rparr>
         \<or> localStorage w' =
             (localStorage w)\<lparr>items := (items (localStorage w))(''portfolio_lang'' \<mapsto> ''fr'')\<rparr>)"

text \<open>The year elements of \<open>w\<close> carry no language tag.\<close>

definition year_elements_untagged :: "world \<Rightarrow> bool" where
  "year_elements_untagged w =
     list_all (\<lambda>ident. case getElementById ident w of
                           Some el \<Rightarrow> \<not> tagged_fr (elements w ! el) \<and> \<not> tagged_en (elements w ! el)
                         | None \<Rightarrow> True)
       [''year'', ''year-fr'']"

text \<open>
  What \<open>setLang\<close> may touch: no id, class list or text content, no element without a
  language tag, not the clock, and in storage nothing but the key \<open>portfolio_lang\<close>.
\<close>

definition only_language_touched :: "world \<Rightarrow> world \<Rightarrow> bool" where
  "only_language_touched w w' =
     (map elem_id (elements w') = map elem_id (elements w) \<and>
      map classList (elements w') = map classList (elements w) \<and>
      map textContent (elements w') = map textContent (elements w) \<and>
      list_all2 (\<lambda>e e'. \<not> tagged_fr e \<and> \<not> tagged_en e \<longrightarrow> e' = e) (elements w) (elements w') \<and>
      fullYear w' = fullYear w \<and>
      getItem_throws (localStorage w') = getItem_throws (localStorage w) \<and>
      setItem_throws (localStorage w') = setItem_throws (localStorage w) \<and>
      (items (localStorage w'))(''portfolio_lang'' := None) =
        (items (localStorage w))(''portfolio_lang'' := None))"

text \<open>At most one element has the id \<open>year\<close>, and at most one the id \<open>year-fr\<close>.\<close>

definition year_ids_unique :: "world \<Rightarrow> bool" where
  "year_ids_unique w =
     list_all (\<lambda>ident. length (filter (\<lambda>e. elem_id e = ident) (elements w)) \<le> 1)
       [''year'', ''year-fr'']"

section \<open>The steps of the script, named\<close>

text \<open>
  What \<open>setLang\<close> does to one element, what it stores, and the state \<open>init\<close> has reached
  when it reads the stored preference: these name the steps of the source for the proofs.
\<close>

definition restyle :: "bool \<Rightarrow> element \<Rightarrow> element" where
  "restyle showFR e =
     (if tagged_en e then e\<lparr>display := (if showFR then ''none'' else '''')\<rparr>
      else if tagged_fr e then e\<lparr>display := (if showFR then '''' else ''none'')\<rparr>
      else e)"

definition code :: "string \<Rightarrow> string" where
  "code next = (if next = ''fr'' then ''fr'' else ''en'')"

definition stored :: "string \<Rightarrow> storage \<Rightarrow> storage" where
  "stored v s =
     (if setItem_throws s then s else s\<lparr>items := (items s)(''portfolio_lang'' \<mapsto> v)\<rparr>)"

definition stamped :: "world \<Rightarrow> world" where
  "stamped w =
     (let y = String (fullYear w);
          w1 = (case getElementById ''year'' w of Some el \<Rightarrow> set_textContent el y w | None \<Rightarrow> w)
      in case getElementById ''year-fr'' w of Some el \<Rightarrow> set_textContent el y w1 | None \<Rightarrow> w1)"

section \<open>Example documents\<close>

text \<open>
  A page with a heading in each language and the two year elements, French stored as the
  preference; the same page with storage out of reach; and a page whose only element
  carries both language classes.
\<close>

definition heading_en :: element where
  "heading_en = \<lparr>elem_id = ''title'', classList = [''hero'', ''lang-en''], display = '''',
                 textContent = ''Hello''\<rparr>"

definition heading_fr :: element where
  "heading_fr = \<lparr>elem_id = ''titre'', classList = [''hero'', ''lang-fr''], display = ''none'',
                 textContent = ''Bonjour''\<rparr>"

definition year_en :: element where
  "year_en = \<lparr>elem_id = ''year'', classList = [], display = '''', textContent = ''''\<rparr>"

definition year_fr :: element where
  "year_fr = \<lparr>elem_id = ''year-fr'', classList = [], display = '''', textContent = ''''\<rparr>"

definition page :: world where
  "page = \<lparr>elements = [heading_en, heading_fr, year_en, year_fr], lang = ''en'',
           localStorage = \<lparr>items = [''portfolio_lang'' \<mapsto> ''fr''], getItem_throws = False,
                            setItem_throws = False\<rparr>,
           fullYear = 2024\<rparr>"

definition offline_page :: world where
  "offline_page = page\<lparr>localStorage := \<lparr>items = Map.empty, getItem_throws = True,
                                          setItem_throws = True\<rparr>\<rparr>"

definition both_tags :: element where
  "both_tags = \<lparr>elem_id = ''name'', classList = [''lang-fr'', ''lang-en''], display = '''',
                textContent = ''Charlotte''\<rparr>"

definition mixed_page :: world where
  "mixed_page = \<lparr>elements = [both_tags], lang = ''fr'',
                 localStorage = \<lparr>items = [''portfolio_lang'' \<mapsto> ''fr''], getItem_throws = False,
                                  setItem_throws = False\<rparr>,
                 fullYear = 2024\<rparr>"

text \<open>
  A page on which both headings are visible while the attribute says \<open>en\<close>, as the
  markup is before \<open>init\<close> has run or after another script has shown an element again.
  And a page whose English year element is itself tagged for English.
\<close>

definition served_page :: world where
  "served_page = \<lparr>elements = [heading_en, heading_fr\<lparr>display := ''''\<rparr>], lang = ''en'',
                  localStorage = \<lparr>items = Map.empty, getItem_throws = False,
                                   setItem_throws = False\<rparr>,
                  fullYear = 2024\<rparr>"

definition tagged_year_page :: world where
  "tagged_year_page = \<lparr>elements = [year_en\<lparr>classList := [''lang-en'']\<rparr>], lang = ''en'',
                       localStorage = \<lparr>items = Map.empty, getItem_throws = False,
                                        setItem_throws = False\<rparr>,
                       fullYear = 2024\<rparr>"

text \<open>
  The example page with French applied, and with storage out of reach.
\<close>

definition french_page :: world where
  "french_page = \<lparr>elements = [heading_en\<lparr>display := ''none''\<rparr>, heading_fr\<lparr>display := ''''\<rparr>,
                                year_en, year_fr],
                  lang = ''fr'',
                  localStorage = \<lparr>items = Map.empty, getItem_throws = True,
                                   setItem_throws = True\<rparr>,
                  fullYear = 2024\<rparr>"

section \<open>How the script changes the state\<close>

declare digits.simps [simp del]

lemma returns_with_Inr: "returns_with (Inr w) P = P w"
  by (simp add: returns_with_def)

lemma matches_fr: "matches ''.lang-fr'' e = tagged_fr e"
  by (simp add: matches_def tagged_fr_def)

lemma matches_en: "matches ''.lang-en'' e = tagged_en e"
  by (simp add: matches_def tagged_en_def)

lemma dollar_all_set:
  "i \<in> set (dollar_all sel w) \<longleftrightarrow> i < length (elements w) \<and> matches sel (elements w ! i)"
  by (auto simp: dollar_all_def querySelectorAll_def)

lemma set_style_display_nth:
  "i < length (elements w) \<Longrightarrow>
   elements (set_style_display n v w) ! i =
     (if i = n then (elements w ! i)\<lparr>display := v\<rparr> else elements w ! i)"
  by (simp add: set_style_display_def nth_list_update)

lemma set_style_display_length:
  "length (elements (set_style_display n v w)) = length (elements w)"
  by (simp add: set_style_display_def)

text \<open>A \<open>forEach\<close> that sets the display touches nothing but the elements of its node list.\<close>

lemma forEach_display_frame:
  "lang (forEach ns (\<lambda>el. set_style_display el v) w) = lang w \<and>
   localStorage (forEach ns (\<lambda>el. set_style_display el v) w) = localStorage w \<and>
   fullYear (forEach ns (\<lambda>el. set_style_display el v) w) = fullYear w \<and>
   length (elements (forEach ns (\<lambda>el. set_style_display el v) w)) = length (elements w)"
  unfolding forEach_def
  by (induction ns arbitrary: w) (simp_all add: set_style_display_def)

lemma forEach_display_nth:
  "i < length (elements w) \<Longrightarrow>
   elements (forEach ns (\<lambda>el. set_style_display el v) w) ! i =
     (if i \<in> set ns then (elements w ! i)\<lparr>display := v\<rparr> else elements w ! i)"
  unfolding forEach_def
proof (induction ns arbitrary: w)
  case Nil
  then show ?case by simp
next
  case (Cons n ns)
  have len: "i < length (elements (set_style_display n v w))"
    using Cons.prems by (simp add: set_style_display_length)
  show ?case
    using Cons.prems by (auto simp: Cons.IH [OF len] set_style_display_nth)
qed

text \<open>
  The whole of \<open>setLang\<close> in one equation: it always returns; the French loop runs first and
  the English loop second, so an element in both node lists keeps what the English loop
  wrote.
\<close>

lemma setLang_eq:
  "setLang next w =
     Inr (w\<lparr>elements := map (restyle (next = ''fr'')) (elements w),
            lang := code next,
            localStorage := stored (code next) (localStorage w)\<rparr>)"
proof -
  let ?v1 = "if next = ''fr'' then '''' else ''none''"
  let ?v2 = "if next = ''fr'' then ''none'' else ''''"
  let ?w1 = "forEach (dollar_all ''.lang-fr'' w) (\<lambda>el. set_style_display el ?v1) w"
  let ?w2 = "forEach (dollar_all ''.lang-en'' w) (\<lambda>el. set_style_display el ?v2) ?w1"
  have fr1: "lang ?w1 = lang w" "localStorage ?w1 = localStorage w" "fullYear ?w1 = fullYear w"
    "length (elements ?w1) = length (elements w)"
    using forEach_display_frame [of "dollar_all ''.lang-fr'' w" ?v1 w] by simp_all
  have fr2: "lang ?w2 = lang w" "localStorage ?w2 = localStorage w" "fullYear ?w2 = fullYear w"
    "length (elements ?w2) = length (elements w)"
    using forEach_display_frame [of "dollar_all ''.lang-en'' w" ?v2 ?w1] fr1 by simp_all
  have el: "elements ?w2 = map (restyle (next = ''fr'')) (elements w)"
  proof (rule nth_equalityI)
    show "length (elements ?w2) = length (map (restyle (next = ''fr'')) (elements w))"
      using fr2 by simp
  next
    fix i assume "i < length (elements ?w2)"
    then have i: "i < length (elements w)" using fr2 by simp
    then have i1: "i < length (elements ?w1)" using fr1 by simp
    show "elements ?w2 ! i = map (restyle (next = ''fr'')) (elements w) ! i"
      using i forEach_display_nth [OF i1, of "dollar_all ''.lang-en'' w" ?v2]
        forEach_display_nth [OF i, of "dollar_all ''.lang-fr'' w" ?v1]
      by (simp add: dollar_all_set matches_fr matches_en restyle_def)
  qed
  have w2: "?w2 = w\<lparr>elements := map (restyle (next = ''fr'')) (elements w)\<rparr>"
    using el fr2 by (intro world.equality) simp_all
  show ?thesis
    unfolding setLang_def Let_def w2
    by (simp add: setItem_def stored_def code_def)
qed

text \<open>What \<open>setLang\<close> does to one element.\<close>

lemma restyle_kept:
  "elem_id (restyle b e) = elem_id e" "classList (restyle b e) = classList e"
  "textContent (restyle b e) = textContent e"
  by (simp_all add: restyle_def)

lemma restyle_tags:
  "tagged_fr (restyle b e) = tagged_fr e" "tagged_en (restyle b e) = tagged_en e"
  by (simp_all add: tagged_fr_def tagged_en_def restyle_kept)

lemma restyle_untagged: "\<not> tagged_fr e \<Longrightarrow> \<not> tagged_en e \<Longrightarrow> restyle b e = e"
  by (simp add: restyle_def)

lemma restyle_display:
  "display (restyle b e) =
     (if tagged_en e then (if b then ''none'' else '''')
      else if tagged_fr e then (if b then '''' else ''none'')
      else display e)"
  by (simp add: restyle_def)

lemma language_shown_restyle:
  "elements w' = map (restyle (v = ''fr'')) es \<Longrightarrow> language_shown v w'"
  by (simp add: language_shown_def list_all_iff restyle_tags restyle_display visible_def hidden_def)

lemma language_shown_exactly_restyle:
  "elements w' = map (restyle (v = ''fr'')) (elements w) \<Longrightarrow> single_tagged w \<Longrightarrow>
   language_shown_exactly v w'"
  by (auto simp: language_shown_exactly_def single_tagged_def list_all_iff restyle_tags
      restyle_display visible_def hidden_def tagged_for_def other_def)

lemma code_lang: "v = ''en'' \<or> v = ''fr'' \<Longrightarrow> code v = v"
  by (auto simp: code_def)

text \<open>The year stamp of \<open>init\<close>, and \<open>init\<close> as a call of \<open>setLang\<close> after it.\<close>

lemma getElementById_Some:
  "getElementById ident w = Some i \<longleftrightarrow>
     i < length (elements w) \<and> elem_id (elements w ! i) = ident \<and>
     (\<forall>j<i. elem_id (elements w ! j) \<noteq> ident)"
  by (auto simp: getElementById_def find_Some_iff)

lemma set_textContent_frame:
  "lang (set_textContent i v w) = lang w"
  "localStorage (set_textContent i v w) = localStorage w"
  "fullYear (set_textContent i v w) = fullYear w"
  "length (elements (set_textContent i v w)) = length (elements w)"
  by (simp_all add: set_textContent_def)

lemma set_textContent_nth:
  "j < length (elements w) \<Longrightarrow>
   elements (set_textContent i v w) ! j =
     (if j = i then (elements w ! j)\<lparr>textContent := v\<rparr> else elements w ! j)"
  by (simp add: set_textContent_def nth_list_update)

lemma stamped_frame:
  "lang (stamped w) = lang w"
  "localStorage (stamped w) = localStorage w"
  "fullYear (stamped w) = fullYear w"
  "length (elements (stamped w)) = length (elements w)"
  by (simp_all add: stamped_def Let_def set_textContent_frame split: option.splits)

lemma stamped_nth:
  assumes "j < length (elements w)"
  shows "elements (stamped w) ! j =
     (if getElementById ''year'' w = Some j \<or> getElementById ''year-fr'' w = Some j
      then (elements w ! j)\<lparr>textContent := String (fullYear w)\<rparr> else elements w ! j)"
  using assms
  by (auto simp: stamped_def Let_def set_textContent_nth set_textContent_frame
      split: option.splits)

lemma getItem_stamped: "getItem k (stamped w) = getItem k w"
  by (simp add: getItem_def stamped_frame)

lemma init_eq:
  "init w =
     setLang (if getItem ''portfolio_lang'' w = Inr (Some ''fr'') then ''fr'' else ''en'')
       (stamped w)"
proof -
  have "init w =
     setLang (if (case getItem ''portfolio_lang'' (stamped w) of Inr v \<Rightarrow> v | Inl e \<Rightarrow> Some ''en'')
                 = Some ''fr'' then ''fr'' else ''en'') (stamped w)"
    unfolding init_def stamped_def Let_def ..
  then show ?thesis
    by (simp add: getItem_stamped split: sum.splits)
qed

text \<open>\<open>String\<close> writes decimal digits, and \<open>decimal\<close> reads them back.\<close>

lemma of_char_digit: "d < 10 \<Longrightarrow> of_char (digit d) = (48 + d :: nat)"
proof -
  assume "d < 10"
  then have "d = 0 \<or> d = 1 \<or> d = 2 \<or> d = 3 \<or> d = 4 \<or> d = 5 \<or> d = 6 \<or> d = 7 \<or> d = 8 \<or> d = 9"
    by arith
  then show ?thesis by (elim disjE) (simp_all add: digit_def)
qed

lemma digit_in: "d < 10 \<Longrightarrow> digit d \<in> set ''0123456789''"
  unfolding digit_def by (rule nth_mem) simp

lemma decimal_snoc: "decimal (s @ [c]) = 10 * decimal s + (of_char c - 48)"
  by (simp add: decimal_def)

lemma decimal_digits: "decimal (digits n) = n"
proof (induction n rule: digits.induct)
  case (1 n)
  show ?case
  proof (cases "n < 10")
    case True
    then show ?thesis
      by (subst digits.simps) (simp add: decimal_def of_char_digit)
  next
    case False
    have "decimal (digits n) = 10 * decimal (digits (n div 10)) + (of_char (digit (n mod 10)) - 48)"
      using False by (subst digits.simps) (simp add: decimal_snoc)
    also have "\<dots> = 10 * (n div 10) + n mod 10"
      using "1.IH" [OF False] by (simp add: of_char_digit)
    also have "\<dots> = n" by simp
    finally show ?thesis .
  qed
qed

lemma digits_chars: "set (digits n) \<subseteq> set ''0123456789''"
proof (induction n rule: digits.induct)
  case (1 n)
  show ?case
  proof (cases "n < 10")
    case True
    then show ?thesis
      using digit_in [OF True] by (subst digits.simps) simp
  next
    case False
    have m: "n mod 10 < 10" by simp
    show ?thesis
      using False "1.IH" [OF False] digit_in [OF m] by (subst digits.simps) simp
  qed
qed

lemma length_digits_four:
  assumes "1000 \<le> n" "n \<le> 9999"
  shows "length (digits n) = 4"
proof -
  have n1: "\<not> n < 10" using assms by simp
  have n2: "\<not> n div 10 < 10" using assms by arith
  have n3: "\<not> n div 10 div 10 < 10" using assms by arith
  have n4: "n div 10 div 10 div 10 < 10" using assms by arith
  have d: "length (digits (n div 10 div 10 div 10)) = 1"
    using n4 by (subst digits.simps) simp
  have c: "length (digits (n div 10 div 10)) = 2"
    using n3 d by (subst digits.simps) simp
  have b: "length (digits (n div 10)) = 3"
    using n2 c by (subst digits.simps) simp
  show ?thesis
    using n1 b by (subst digits.simps) simp
qed

lemma String_year:
  assumes "0 \<le> y"
  shows "int (decimal (String y)) = y" "set (String y) \<subseteq> set ''0123456789''"
  using assms digits_chars [of "nat y"] by (simp_all add: String_def decimal_digits)

lemma String_four: "1000 \<le> y \<Longrightarrow> y \<le> 9999 \<Longrightarrow> length (String y) = 4"
  using length_digits_four [of "nat y"] by (simp add: String_def)

lemmas page_defs = page_def offline_page_def mixed_page_def served_page_def tagged_year_page_def
  heading_en_def heading_fr_def year_en_def year_fr_def both_tags_def

lemmas vocab_defs = tagged_fr_def tagged_en_def tagged_for_def other_def visible_def hidden_def

lemma toggleLanguage_eq:
  "toggleLanguage w = setLang (if lang w = ''fr'' then ''en'' else ''fr'') w"
  by (simp add: toggleLanguage_def)

text \<open>Storage and the frame of \<open>setLang\<close>.\<close>

lemma stored_wrote:
  "localStorage w' = stored (code v) (localStorage w) \<Longrightarrow> wrote_en_or_fr w w'"
  by (simp add: wrote_en_or_fr_def stored_def code_def)

lemma setLang_wrote:
  "\<exists>w'. setLang next w = Inr w' \<and> localStorage w' = stored (code next) (localStorage w)"
  by (simp add: setLang_eq)

lemma setLang_only_language:
  assumes "elements w' = map (restyle b) (elements w)"
    and "localStorage w' = stored v (localStorage w)" and "fullYear w' = fullYear w"
  shows "only_language_touched w w'"
  unfolding only_language_touched_def
  using assms
  by (simp add: restyle_kept comp_def stored_def list_all2_conv_all_nth restyle_untagged)

lemma only_language_year:
  assumes "only_language_touched w w'" and "year_elements_untagged w"
  shows "year_elements_unmodified w w'"
proof -
  have "elements w' ! el = elements w ! el"
    if "getElementById ident w = Some el"
      "\<not> tagged_fr (elements w ! el) \<and> \<not> tagged_en (elements w ! el)" for ident el
  proof -
    have "el < length (elements w)" using that(1) by (simp add: getElementById_Some)
    then show ?thesis
      using assms(1) that(2) by (simp add: only_language_touched_def list_all2_conv_all_nth)
  qed
  then show ?thesis
    using assms(2)
    by (auto simp: year_elements_unmodified_def year_elements_untagged_def split: option.splits)
qed

text \<open>Two toggles, and the languages after \<open>setLang\<close>.\<close>

lemma restyle_restyle: "restyle b (restyle c e) = restyle b e"
  by (simp add: restyle_def tagged_fr_def tagged_en_def)

lemma language_shown_fixed:
  assumes "language_shown v w"
  shows "map (restyle (v = ''fr'')) (elements w) = elements w"
proof -
  have "restyle (v = ''fr'') e = e" if "e \<in> set (elements w)" for e
    using assms that
    by (auto simp: language_shown_def list_all_iff restyle_def visible_def hidden_def)
  then show ?thesis by (simp add: map_idI)
qed

lemma toggle_twice_elements:
  "\<exists>w1 w2. toggleLanguage w = Inr w1 \<and> toggleLanguage w1 = Inr w2 \<and>
     elements w2 = map (restyle (lang w = ''fr'')) (elements w) \<and>
     lang w2 = (if lang w = ''fr'' then ''fr'' else ''en'')"
  by (simp add: toggleLanguage_eq setLang_eq code_def restyle_restyle comp_def)

lemma stamped_tags:
  "map classList (elements (stamped w)) = map classList (elements w)"
  by (rule nth_equalityI) (simp_all add: stamped_frame stamped_nth)

lemma single_tagged_stamped: "single_tagged (stamped w) = single_tagged w"
proof -
  have "list_all (\<lambda>c. \<not> (''lang-fr'' \<in> set c \<and> ''lang-en'' \<in> set c)) (map classList (elements (stamped w)))
      = list_all (\<lambda>c. \<not> (''lang-fr'' \<in> set c \<and> ''lang-en'' \<in> set c)) (map classList (elements w))"
    by (simp only: stamped_tags)
  then show ?thesis
    by (simp add: single_tagged_def tagged_fr_def tagged_en_def list_all_iff)
qed

text \<open>
  What \<open>setLang\<close> and \<open>init\<close> leave: the language code in the attribute, the tagged
  elements showing it, and the class lists of the state they started from.
\<close>

lemma setLang_result:
  "\<exists>w'. setLang v w = Inr w' \<and> lang w' = code v \<and> language_shown (code v) w' \<and>
        map classList (elements w') = map classList (elements w) \<and>
        (single_tagged w \<longrightarrow> language_shown_exactly (code v) w')"
proof -
  let ?w' = "w\<lparr>elements := map (restyle (v = ''fr'')) (elements w), lang := code v,
               localStorage := stored (code v) (localStorage w)\<rparr>"
  have c: "(code v = ''fr'') = (v = ''fr'')" by (simp add: code_def)
  have el: "elements ?w' = map (restyle (code v = ''fr'')) (elements w)" by (simp add: c)
  have "setLang v w = Inr ?w'" by (rule setLang_eq)
  moreover have "lang ?w' = code v" by simp
  moreover have "language_shown (code v) ?w'" using el by (rule language_shown_restyle)
  moreover have "map classList (elements ?w') = map classList (elements w)"
    by (simp add: restyle_kept comp_def)
  moreover have "single_tagged w \<longrightarrow> language_shown_exactly (code v) ?w'"
    using language_shown_exactly_restyle [OF el] by blast
  ultimately show ?thesis by blast
qed

lemma init_result:
  "\<exists>w'. init w = Inr w' \<and>
        lang w' = (if getItem ''portfolio_lang'' w = Inr (Some ''fr'') then ''fr'' else ''en'') \<and>
        language_shown (if getItem ''portfolio_lang'' w = Inr (Some ''fr'') then ''fr'' else ''en'') w' \<and>
        map classList (elements w') = map classList (elements w) \<and>
        (single_tagged w \<longrightarrow>
           language_shown_exactly
             (if getItem ''portfolio_lang'' w = Inr (Some ''fr'') then ''fr'' else ''en'') w')"
proof -
  let ?v = "if getItem ''portfolio_lang'' w = Inr (Some ''fr'') then ''fr'' else ''en''"
  have c: "code ?v = ?v" by (simp add: code_def)
  show ?thesis
    using setLang_result [of ?v "stamped w"]
    unfolding c init_eq stamped_tags single_tagged_stamped .
qed

text \<open>Unfolding a run on an example page.\<close>

lemmas run_defs = init_eq setLang_eq toggleLanguage_eq getItem_def stamped_def getElementById_def
  set_textContent_def code_def stored_def restyle_def Let_def

lemmas shown_defs = language_applied_def language_applied_exactly_def language_shown_def
  language_shown_exactly_def one_language_active_def one_language_active_exactly_def
  single_tagged_def

text \<open>The elements after \<open>init\<close>, and the element an id names when no other element has it.\<close>

lemma init_elements:
  "\<exists>w'. init w = Inr w' \<and>
     elements w' =
       map (restyle (getItem ''portfolio_lang'' w = Inr (Some ''fr''))) (elements (stamped w))"
  by (simp add: init_eq setLang_eq)

lemma filter_two:
  assumes "j < i" "i < length xs" "P (xs ! j)" "P (xs ! i)"
  shows "2 \<le> length (filter P xs)"
proof -
  have xs: "xs = take i xs @ xs ! i # drop (Suc i) xs"
    using assms(2) by (rule id_take_nth_drop)
  have "xs ! j \<in> set (take i xs)"
    using assms(1,2) by (auto simp: in_set_conv_nth intro!: exI [of _ j])
  then have "xs ! j \<in> set (filter P (take i xs))"
    using assms(3) by simp
  then have "1 \<le> length (filter P (take i xs))"
    by (cases "filter P (take i xs)") simp_all
  moreover have "length (filter P xs) =
      length (filter P (take i xs)) + length (filter P (xs ! i # drop (Suc i) xs))"
    by (subst xs) simp
  ultimately show ?thesis using assms(4) by simp
qed

lemma unique_id_found:
  assumes "length (filter (\<lambda>e. elem_id e = ident) (elements w)) \<le> 1"
    and "i < length (elements w)" and "elem_id (elements w ! i) = ident"
  shows "getElementById ident w = Some i"
proof -
  have "elem_id (elements w ! j) \<noteq> ident" if "j < i" for j
  proof
    assume "elem_id (elements w ! j) = ident"
    then have "2 \<le> length (filter (\<lambda>e. elem_id e = ident) (elements w))"
      using filter_two [OF that assms(2), of "\<lambda>e. elem_id e = ident"] assms(3) by simp
    then show False using assms(1) by simp
  qed
  then show ?thesis using assms(2,3) by (simp add: getElementById_Some)
qed

lemma year_ids_found:
  assumes "year_ids_unique w" and "i < length (elements w)"
    and "elem_id (elements w ! i) = ''year'' \<or> elem_id (elements w ! i) = ''year-fr''"
  shows "getElementById ''year'' w = Some i \<or> getElementById ''year-fr'' w = Some i"
  using assms unique_id_found [of "''year''" w i] unique_id_found [of "''year-fr''" w i]
  by (auto simp: year_ids_unique_def)

lemma String_2024: "String 2024 = ''2024''"
  by (simp add: String_def digits.simps digit_def)

section \<open>applyLanguage (\<open>setLang\<close>)\<close>

text \<open>
  An element that carries both language classes is in both node lists. For French the first
  loop clears its display and the second sets it to \<open>none\<close>: it is tagged for French and
  ends hidden, so \<open>setLang\<close> does not make exactly the elements tagged for the language
  visible.
\<close>

theorem setLang_both_tags_counterexample:
  "\<not> returns_with (setLang ''fr'' mixed_page) (language_shown_exactly ''fr'')"
  by (simp add: setLang_eq returns_with_Inr language_shown_exactly_def page_defs
      restyle_def vocab_defs)

text \<open>
  C1, amended. For \<open>v\<close> one of \<open>en\<close> and \<open>fr\<close>, \<open>setLang v\<close> returns, the \<open>lang\<close> attribute is
  \<open>v\<close>, no class list has changed, and the tagged elements show \<open>v\<close>: an element tagged for
  one language only is visible when that language is \<open>v\<close> and hidden otherwise, and an
  element tagged for both goes by its English tag. When no element carries both tags,
  every element tagged for \<open>v\<close> is visible and every element tagged for the other language
  is hidden.
\<close>

theorem setLang_shows_language:
  assumes "v = ''en'' \<or> v = ''fr''"
  shows "\<exists>w'. setLang v w = Inr w' \<and> lang w' = v \<and> language_shown v w' \<and>
           map classList (elements w') = map classList (elements w) \<and>
           (single_tagged w \<longrightarrow> language_shown_exactly v w')"
proof -
  let ?w' = "w\<lparr>elements := map (restyle (v = ''fr'')) (elements w), lang := code v,
               localStorage := stored (code v) (localStorage w)\<rparr>"
  have el: "elements ?w' = map (restyle (v = ''fr'')) (elements w)" by simp
  have "setLang v w = Inr ?w'" by (rule setLang_eq)
  moreover have "lang ?w' = v" using assms by (simp add: code_lang)
  moreover have "language_shown v ?w'" using el by (rule language_shown_restyle)
  moreover have "map classList (elements ?w') = map classList (elements w)"
    by (simp add: restyle_kept comp_def)
  moreover have "single_tagged w \<longrightarrow> language_shown_exactly v ?w'"
    using language_shown_exactly_restyle [OF el] by blast
  ultimately show ?thesis by blast
qed

text \<open>On the example page, for French.\<close>

theorem setLang_shows_language_witness:
  "(''fr'' = ''en'' \<or> ''fr'' = ''fr'') \<and>
   (\<exists>w'. setLang ''fr'' page = Inr w' \<and> lang w' = ''fr'' \<and> language_shown ''fr'' w' \<and>
           map classList (elements w') = map classList (elements page) \<and>
           single_tagged page \<and> language_shown_exactly ''fr'' w')"
  using setLang_shows_language [of "''fr''" page]
  by (simp add: single_tagged_def page_defs vocab_defs)

text \<open>
  C4. When the write to storage raises, \<open>setLang v\<close> still returns (nothing is raised to
  the caller), the \<open>lang\<close> attribute is \<open>v\<close>, the elements keep their class lists and the
  tagged ones show \<open>v\<close> (every element tagged for \<open>v\<close> visible and every element tagged
  for the other language hidden when none carries both tags), storage is as it was, and
  the elements and the attribute are the ones the same call leaves when the write goes
  through.
\<close>

theorem setLang_survives_write_failure:
  assumes "setItem_throws (localStorage w)" and "v = ''en'' \<or> v = ''fr''"
  shows "\<exists>w'. setLang v w = Inr w' \<and> lang w' = v \<and> language_shown v w' \<and>
           map classList (elements w') = map classList (elements w) \<and>
           (single_tagged w \<longrightarrow> language_shown_exactly v w') \<and>
           localStorage w' = localStorage w \<and>
           (\<exists>w''. setLang v (w\<lparr>localStorage := (localStorage w)\<lparr>setItem_throws := False\<rparr>\<rparr>) = Inr w'' \<and>
                  elements w' = elements w'' \<and> lang w' = lang w'')"
proof -
  have c: "code v = v" using assms(2) by (rule code_lang)
  obtain w' where r: "setLang v w = Inr w'" "lang w' = v" "language_shown v w'"
      "map classList (elements w') = map classList (elements w)"
      "single_tagged w \<longrightarrow> language_shown_exactly v w'"
    using setLang_result [of v w] unfolding c by blast
  have "localStorage w' = localStorage w"
    using r(1) assms(1) by (auto simp: setLang_eq stored_def)
  moreover have "\<exists>w''. setLang v (w\<lparr>localStorage := (localStorage w)\<lparr>setItem_throws := False\<rparr>\<rparr>) = Inr w'' \<and>
                  elements w' = elements w'' \<and> lang w' = lang w''"
    using r(1) by (auto simp: setLang_eq)
  ultimately show ?thesis using r by blast
qed

text \<open>
  On the example page with storage out of reach, for French: English is showing before
  the call and French after it.
\<close>

theorem setLang_survives_write_failure_witness:
  "setItem_throws (localStorage offline_page) \<and> (''fr'' = ''en'' \<or> ''fr'' = ''fr'') \<and>
   single_tagged offline_page \<and>
   map display (elements offline_page) = ['''', ''none'', '''', ''''] \<and>
   lang offline_page = ''en'' \<and>
   (\<exists>w'. setLang ''fr'' offline_page = Inr w' \<and> lang w' = ''fr'' \<and> language_shown ''fr'' w' \<and>
           map classList (elements w') = map classList (elements offline_page) \<and>
           language_shown_exactly ''fr'' w' \<and>
           localStorage w' = localStorage offline_page \<and>
           map display (elements w') = [''none'', '''', '''', ''''] \<and>
           (\<exists>w''. setLang ''fr'' (offline_page\<lparr>localStorage := (localStorage offline_page)\<lparr>setItem_throws := False\<rparr>\<rparr>) = Inr w'' \<and>
                  elements w' = elements w'' \<and> lang w' = lang w''))"
  using setLang_survives_write_failure [of offline_page "''fr''"]
  by (simp add: run_defs shown_defs page_defs vocab_defs)

section \<open>toggleLanguage\<close>

text \<open>
  C5. \<open>toggleLanguage\<close> is \<open>setLang\<close> at the opposite of the declared language, where any
  \<open>lang\<close> other than \<open>fr\<close> counts as English. From \<open>fr\<close> it returns with the attribute \<open>en\<close>
  and every English-tagged element visible; from anything else it returns with the
  attribute \<open>fr\<close>.
\<close>

theorem toggleLanguage_applies_opposite:
  "toggleLanguage w = setLang (if lang w = ''fr'' then ''en'' else ''fr'') w \<and>
   (lang w = ''fr'' \<longrightarrow>
      (\<exists>w'. toggleLanguage w = Inr w' \<and> lang w' = ''en'' \<and>
             list_all (\<lambda>e. tagged_en e \<longrightarrow> visible e) (elements w') \<and>
             map classList (elements w') = map classList (elements w))) \<and>
   (lang w \<noteq> ''fr'' \<longrightarrow> (\<exists>w'. toggleLanguage w = Inr w' \<and> lang w' = ''fr''))"
proof (intro conjI impI)
  show "toggleLanguage w = setLang (if lang w = ''fr'' then ''en'' else ''fr'') w"
    by (rule toggleLanguage_eq)
next
  assume fr: "lang w = ''fr''"
  let ?w' = "w\<lparr>elements := map (restyle False) (elements w), lang := ''en'',
               localStorage := stored ''en'' (localStorage w)\<rparr>"
  have "toggleLanguage w = Inr ?w'"
    using fr by (simp add: toggleLanguage_eq setLang_eq code_def)
  moreover have "list_all (\<lambda>e. tagged_en e \<longrightarrow> visible e) (elements ?w')"
    by (simp add: list_all_iff restyle_tags restyle_display visible_def)
  moreover have "map classList (elements ?w') = map classList (elements w)"
    by (simp add: restyle_kept comp_def)
  ultimately show "\<exists>w'. toggleLanguage w = Inr w' \<and> lang w' = ''en'' \<and>
             list_all (\<lambda>e. tagged_en e \<longrightarrow> visible e) (elements w') \<and>
             map classList (elements w') = map classList (elements w)"
    by simp
next
  assume "lang w \<noteq> ''fr''"
  then show "\<exists>w'. toggleLanguage w = Inr w' \<and> lang w' = ''fr''"
    by (simp add: toggleLanguage_eq setLang_eq code_def)
qed

text \<open>From French on the page with a doubly tagged element, from English on the example page.\<close>

theorem toggleLanguage_applies_opposite_witness:
  "lang mixed_page = ''fr'' \<and>
   toggleLanguage mixed_page =
     setLang (if lang mixed_page = ''fr'' then ''en'' else ''fr'') mixed_page \<and>
   (\<exists>w'. toggleLanguage mixed_page = Inr w' \<and> lang w' = ''en'' \<and>
          list_all (\<lambda>e. tagged_en e \<longrightarrow> visible e) (elements w') \<and>
          map classList (elements w') = map classList (elements mixed_page)) \<and>
   lang page \<noteq> ''fr'' \<and> (\<exists>w'. toggleLanguage page = Inr w' \<and> lang w' = ''fr'')"
proof -
  have h: "lang mixed_page = ''fr''" by (simp add: mixed_page_def)
  have g: "lang page \<noteq> ''fr''" by (simp add: page_def)
  show ?thesis
    using h g toggleLanguage_applies_opposite [of mixed_page]
      toggleLanguage_applies_opposite [of page]
    by blast
qed

text \<open>
  On a page with both headings visible and the attribute \<open>en\<close>, the first toggle hides
  the English heading and the second shows it and hides the French one: the visible set is
  not the one before.
\<close>

theorem two_toggles_counterexample: "\<not> two_toggles_restore served_page"
  by (simp add: two_toggles_restore_def toggleLanguage_eq setLang_eq returns_with_Inr code_def
      visible_tagged_def page_defs restyle_def vocab_defs)

text \<open>
  C2, amended. From any state, two calls of \<open>toggleLanguage\<close> in a row return and leave the
  tagged elements displayed for the language declared at the start (English unless the
  attribute was \<open>fr\<close>), with the attribute naming it. When the tagged elements were
  displayed for that language at the start, the way \<open>setLang\<close> leaves them (as they are after
  \<open>init\<close> and after every toggle), the two calls restore the set of visible tagged elements,
  and in fact every element.
\<close>

theorem two_toggles_restore_shown:
  "\<exists>w1 w2. toggleLanguage w = Inr w1 \<and> toggleLanguage w1 = Inr w2 \<and>
     language_shown (lang w) w2 \<and> lang w2 = (if lang w = ''fr'' then ''fr'' else ''en'') \<and>
     (language_shown (lang w) w \<longrightarrow> elements w2 = elements w \<and> two_toggles_restore w)"
proof -
  obtain w1 w2 where t: "toggleLanguage w = Inr w1" "toggleLanguage w1 = Inr w2"
    and el: "elements w2 = map (restyle (lang w = ''fr'')) (elements w)"
    and l: "lang w2 = (if lang w = ''fr'' then ''fr'' else ''en'')"
    using toggle_twice_elements [of w] by blast
  have shown: "language_shown (lang w) w2"
    using el by (rule language_shown_restyle)
  have "elements w2 = elements w \<and> two_toggles_restore w" if "language_shown (lang w) w"
  proof -
    have same: "elements w2 = elements w"
      using el language_shown_fixed [OF that] by simp
    then have "visible_tagged w2 = visible_tagged w"
      by (simp add: visible_tagged_def)
    then have "two_toggles_restore w"
      using t by (simp add: two_toggles_restore_def returns_with_Inr)
    then show ?thesis using same by simp
  qed
  then show ?thesis using t shown l by blast
qed

text \<open>On the example page.\<close>

theorem two_toggles_restore_shown_witness:
  "language_shown (lang page) page \<and> two_toggles_restore page \<and>
   (\<exists>w1 w2. toggleLanguage page = Inr w1 \<and> toggleLanguage w1 = Inr w2 \<and>
             lang w2 = ''en'' \<and> elements w2 = elements page)"
proof -
  have h: "language_shown (lang page) page"
    by (simp add: language_shown_def page_defs vocab_defs)
  have l: "lang page = ''en''" by (simp add: page_def)
  show ?thesis using h two_toggles_restore_shown [of page] unfolding l by auto
qed

section \<open>Storage and frame\<close>

text \<open>
  C9. Each of \<open>setLang\<close> (for every argument), \<open>toggleLanguage\<close> and \<open>init\<close> returns
  and has either left storage as it was, when the write raised, or set the key
  \<open>portfolio_lang\<close> to \<open>en\<close> or to \<open>fr\<close> and changed nothing else in storage; so after a
  write that went through, the key holds \<open>en\<close> or \<open>fr\<close>.
\<close>

theorem storage_holds_en_or_fr:
  "(\<exists>w'. setLang next w = Inr w' \<and> wrote_en_or_fr w w') \<and>
   (\<exists>w'. toggleLanguage w = Inr w' \<and> wrote_en_or_fr w w') \<and>
   (\<exists>w'. init w = Inr w' \<and> wrote_en_or_fr w w') \<and>
   (\<forall>w'. wrote_en_or_fr w w' \<and> \<not> setItem_throws (localStorage w) \<longrightarrow>
      items (localStorage w') ''portfolio_lang'' = Some ''en'' \<or>
      items (localStorage w') ''portfolio_lang'' = Some ''fr'')"
proof (intro conjI allI impI)
  show "\<exists>w'. setLang next w = Inr w' \<and> wrote_en_or_fr w w'"
    by (simp add: setLang_eq stored_wrote)
  show "\<exists>w'. toggleLanguage w = Inr w' \<and> wrote_en_or_fr w w'"
    by (simp add: toggleLanguage_eq setLang_eq stored_wrote)
  have "wrote_en_or_fr (stamped w) w' \<Longrightarrow> wrote_en_or_fr w w'" for w'
    by (simp add: wrote_en_or_fr_def stamped_frame cong: if_cong)
  then show "\<exists>w'. init w = Inr w' \<and> wrote_en_or_fr w w'"
    by (simp add: init_eq setLang_eq stored_wrote)
next
  fix w' assume "wrote_en_or_fr w w' \<and> \<not> setItem_throws (localStorage w)"
  then show "items (localStorage w') ''portfolio_lang'' = Some ''en'' \<or>
      items (localStorage w') ''portfolio_lang'' = Some ''fr''"
    by (auto simp: wrote_en_or_fr_def)
qed

text \<open>On the example page, for an argument that is no language code.\<close>

theorem storage_holds_en_or_fr_witness:
  "\<not> setItem_throws (localStorage page) \<and>
   (\<exists>w'. setLang ''de'' page = Inr w' \<and> wrote_en_or_fr page w' \<and>
          (items (localStorage w') ''portfolio_lang'' = Some ''en'' \<or>
           items (localStorage w') ''portfolio_lang'' = Some ''fr''))"
proof -
  have h: "\<not> setItem_throws (localStorage page)" by (simp add: page_def)
  from storage_holds_en_or_fr [of "''de''" page] show ?thesis using h by blast
qed

text \<open>
  A year element that is itself tagged for a language is restyled like any other tagged
  element: its display changes.
\<close>

theorem setLang_tagged_year_counterexample:
  "\<not> returns_with (setLang ''fr'' tagged_year_page) (year_elements_unmodified tagged_year_page)"
  by (simp add: setLang_eq returns_with_Inr year_elements_unmodified_def getElementById_def
      page_defs restyle_def vocab_defs)

text \<open>
  C10, amended. \<open>setLang\<close> and \<open>toggleLanguage\<close> return and change no id, class list or
  text content of any element, leave every element tagged for neither language as it was,
  leave the clock alone and change nothing in storage but the key \<open>portfolio_lang\<close>. The
  year elements are as they were whenever they carry no language tag; one that does has its
  display set with the other tagged elements, and its text stays.
\<close>

theorem only_language_touched_by_setLang_and_toggle:
  "(\<exists>w'. setLang next w = Inr w' \<and> only_language_touched w w' \<and>
          (year_elements_untagged w \<longrightarrow> year_elements_unmodified w w')) \<and>
   (\<exists>w'. toggleLanguage w = Inr w' \<and> only_language_touched w w' \<and>
          (year_elements_untagged w \<longrightarrow> year_elements_unmodified w w'))"
proof -
  have a: "\<exists>w'. setLang v w = Inr w' \<and> only_language_touched w w' \<and>
          (year_elements_untagged w \<longrightarrow> year_elements_unmodified w w')" for v
  proof -
    let ?w' = "w\<lparr>elements := map (restyle (v = ''fr'')) (elements w), lang := code v,
               localStorage := stored (code v) (localStorage w)\<rparr>"
    have t: "only_language_touched w ?w'"
      by (rule setLang_only_language [of _ "v = ''fr''" _ "code v"]) simp_all
    have "setLang v w = Inr ?w'" by (rule setLang_eq)
    then show ?thesis using t only_language_year [OF t] by blast
  qed
  show ?thesis
    using a [of "next"] a [of "if lang w = ''fr'' then ''en'' else ''fr''"]
    by (simp only: toggleLanguage_eq)
qed

text \<open>On the example page, whose year elements are not tagged.\<close>

theorem only_language_touched_witness:
  "year_elements_untagged page \<and>
   (\<exists>w'. setLang ''fr'' page = Inr w' \<and> only_language_touched page w' \<and>
          year_elements_unmodified page w') \<and>
   (\<exists>w'. toggleLanguage page = Inr w' \<and> only_language_touched page w' \<and>
          year_elements_unmodified page w')"
proof -
  have h: "year_elements_untagged page"
    by (simp add: year_elements_untagged_def getElementById_def page_defs vocab_defs)
  show ?thesis
    using h only_language_touched_by_setLang_and_toggle [of "''fr''" page] by blast
qed

section \<open>initialize (\<open>init\<close>)\<close>

text \<open>
  With storage out of reach and an element that carries both language classes, \<open>init\<close>
  applies English and the element is visible although it is tagged for French.
\<close>

theorem init_offline_both_tags_counterexample:
  "\<not> returns_with
       (init (mixed_page\<lparr>localStorage := \<lparr>items = Map.empty, getItem_throws = True,
                                          setItem_throws = True\<rparr>\<rparr>))
       (language_applied_exactly ''en'')"
  by (simp add: init_eq setLang_eq returns_with_Inr language_applied_exactly_def
      language_shown_exactly_def getItem_def stamped_def getElementById_def set_textContent_def
      code_def page_defs restyle_def vocab_defs)

text \<open>
  C3, amended. When the read of the stored preference raises, or finds nothing, or finds a
  string other than \<open>fr\<close>, \<open>init\<close> returns with English applied: the \<open>lang\<close> attribute is
  \<open>en\<close>, the elements keep their class lists, every English-tagged element is visible and
  every element tagged for French only is hidden. When no element carries both tags,
  every French-tagged element is hidden.
\<close>

theorem init_falls_back_to_English:
  assumes "getItem ''portfolio_lang'' w = Inl DOMException \<or>
           getItem ''portfolio_lang'' w = Inr None \<or>
           (\<exists>s. s \<noteq> ''fr'' \<and> getItem ''portfolio_lang'' w = Inr (Some s))"
  shows "\<exists>w'. init w = Inr w' \<and> language_applied ''en'' w' \<and>
           map classList (elements w') = map classList (elements w) \<and>
           (single_tagged w \<longrightarrow> language_applied_exactly ''en'' w')"
proof -
  have "getItem ''portfolio_lang'' w \<noteq> Inr (Some ''fr'')"
    using assms by auto
  then show ?thesis
    using init_result [of w]
    by (auto simp: language_applied_def language_applied_exactly_def)
qed

text \<open>
  On the example page with French applied, where \<open>init\<close> has to change the attribute and
  both headings: once with the read raising, once with nothing stored, once with \<open>de\<close>
  stored.
\<close>

theorem init_falls_back_to_English_witness:
  "getItem ''portfolio_lang'' french_page = Inl DOMException \<and>
   single_tagged french_page \<and>
   map display (elements french_page) = [''none'', '''', '''', ''''] \<and>
   lang french_page = ''fr'' \<and>
   (\<exists>w'. init french_page = Inr w' \<and> language_applied ''en'' w' \<and>
          map classList (elements w') = map classList (elements french_page) \<and>
          language_applied_exactly ''en'' w' \<and>
          map display (elements w') = ['''', ''none'', '''', '''']) \<and>
   getItem ''portfolio_lang''
     (french_page\<lparr>localStorage := \<lparr>items = Map.empty, getItem_throws = False,
                                     setItem_throws = False\<rparr>\<rparr>) = Inr None \<and>
   (\<exists>w'. init (french_page\<lparr>localStorage := \<lparr>items = Map.empty, getItem_throws = False,
                                                setItem_throws = False\<rparr>\<rparr>) = Inr w' \<and>
          language_applied ''en'' w' \<and>
          map classList (elements w') = map classList (elements french_page) \<and>
          map display (elements w') = ['''', ''none'', '''', '''']) \<and>
   getItem ''portfolio_lang''
     (french_page\<lparr>localStorage := \<lparr>items = [''portfolio_lang'' \<mapsto> ''de''], getItem_throws = False,
                                     setItem_throws = False\<rparr>\<rparr>) = Inr (Some ''de'') \<and>
   ''de'' \<noteq> ''fr'' \<and>
   (\<exists>w'. init (french_page\<lparr>localStorage := \<lparr>items = [''portfolio_lang'' \<mapsto> ''de''],
                                                getItem_throws = False,
                                                setItem_throws = False\<rparr>\<rparr>) = Inr w' \<and>
          language_applied ''en'' w' \<and>
          map classList (elements w') = map classList (elements french_page) \<and>
          map display (elements w') = ['''', ''none'', '''', ''''])"
  using init_falls_back_to_English [of french_page]
    init_falls_back_to_English [of "french_page\<lparr>localStorage := \<lparr>items = Map.empty,
      getItem_throws = False, setItem_throws = False\<rparr>\<rparr>"]
    init_falls_back_to_English [of "french_page\<lparr>localStorage := \<lparr>items = [''portfolio_lang'' \<mapsto> ''de''],
      getItem_throws = False, setItem_throws = False\<rparr>\<rparr>"]
  by (simp add: run_defs shown_defs french_page_def page_defs vocab_defs)

text \<open>
  With \<open>fr\<close> stored and an element that carries both language classes, \<open>init\<close> applies
  French and the element is hidden although it is tagged for French.
\<close>

theorem init_stored_fr_both_tags_counterexample:
  "\<not> returns_with (init mixed_page) (language_applied_exactly ''fr'')"
  by (simp add: init_eq setLang_eq returns_with_Inr language_applied_exactly_def
      language_shown_exactly_def getItem_def stamped_def getElementById_def set_textContent_def
      code_def page_defs restyle_def vocab_defs)

text \<open>
  C6, amended. When the stored preference read by \<open>init\<close> is \<open>fr\<close>, \<open>init\<close> returns with
  French applied: the \<open>lang\<close> attribute is \<open>fr\<close>, the elements keep their class lists, every
  English-tagged element is hidden and every element tagged for French only is visible.
  When no element carries both tags, every French-tagged element is visible.
\<close>

theorem init_restores_French:
  assumes "getItem ''portfolio_lang'' w = Inr (Some ''fr'')"
  shows "\<exists>w'. init w = Inr w' \<and> language_applied ''fr'' w' \<and>
           map classList (elements w') = map classList (elements w) \<and>
           (single_tagged w \<longrightarrow> language_applied_exactly ''fr'' w')"
  using assms init_result [of w]
  by (auto simp: language_applied_def language_applied_exactly_def)

text \<open>
  On the example page, where \<open>fr\<close> is stored and English is showing: \<open>init\<close> hides the
  English heading and shows the French one.
\<close>

theorem init_restores_French_witness:
  "getItem ''portfolio_lang'' page = Inr (Some ''fr'') \<and>
   single_tagged page \<and>
   map display (elements page) = ['''', ''none'', '''', ''''] \<and> lang page = ''en'' \<and>
   (\<exists>w'. init page = Inr w' \<and> language_applied ''fr'' w' \<and>
          map classList (elements w') = map classList (elements page) \<and>
          language_applied_exactly ''fr'' w' \<and>
          map display (elements w') = [''none'', '''', '''', ''''])"
  using init_restores_French [of page]
  by (simp add: run_defs shown_defs page_defs vocab_defs)

text \<open>
  C8. \<open>init\<close> returns whether or not the year elements are there. Afterwards the element
  that \<open>getElementById\<close> finds for \<open>year\<close>, and the one it finds for \<open>year-fr\<close>, has the
  clock's year written by \<open>String\<close> as its text content; when neither id is used twice
  that is every element whose id is \<open>year\<close> or \<open>year-fr\<close>. No other text content and no id changes.
  The text is the year in decimal digits, four of them for a year from 1000 to 9999.
\<close>

theorem init_stamps_year:
  "\<exists>w'. init w = Inr w' \<and>
     map elem_id (elements w') = map elem_id (elements w) \<and>
     (\<forall>el. getElementById ''year'' w = Some el \<or> getElementById ''year-fr'' w = Some el \<longrightarrow>
        textContent (elements w' ! el) = String (fullYear w)) \<and>
     (year_ids_unique w \<longrightarrow>
        (\<forall>i<length (elements w).
           elem_id (elements w ! i) = ''year'' \<or> elem_id (elements w ! i) = ''year-fr'' \<longrightarrow>
           textContent (elements w' ! i) = String (fullYear w))) \<and>
     (\<forall>i<length (elements w).
        getElementById ''year'' w \<noteq> Some i \<and> getElementById ''year-fr'' w \<noteq> Some i \<longrightarrow>
        textContent (elements w' ! i) = textContent (elements w ! i)) \<and>
     (0 \<le> fullYear w \<longrightarrow>
        int (decimal (String (fullYear w))) = fullYear w \<and>
        set (String (fullYear w)) \<subseteq> set ''0123456789'') \<and>
     (1000 \<le> fullYear w \<and> fullYear w \<le> 9999 \<longrightarrow> length (String (fullYear w)) = 4)"
proof -
  define b where "b = (getItem ''portfolio_lang'' w = Inr (Some ''fr''))"
  obtain w' where i: "init w = Inr w'"
    and el: "elements w' = map (restyle b) (elements (stamped w))"
    using init_elements [of w] unfolding b_def by blast
  have tx: "textContent (elements w' ! j) =
      (if getElementById ''year'' w = Some j \<or> getElementById ''year-fr'' w = Some j
       then String (fullYear w) else textContent (elements w ! j))"
    if "j < length (elements w)" for j
    using that by (simp add: el stamped_frame stamped_nth restyle_kept)
  have ids: "map elem_id (elements w') = map elem_id (elements w)"
    by (rule nth_equalityI) (simp_all add: el stamped_frame stamped_nth restyle_kept)
  have found: "textContent (elements w' ! j) = String (fullYear w)"
    if "getElementById ''year'' w = Some j \<or> getElementById ''year-fr'' w = Some j" for j
  proof -
    have "j < length (elements w)" using that by (auto simp: getElementById_Some)
    then show ?thesis using that tx by simp
  qed
  have present: "textContent (elements w' ! j) = String (fullYear w)"
    if "year_ids_unique w" "j < length (elements w)"
      "elem_id (elements w ! j) = ''year'' \<or> elem_id (elements w ! j) = ''year-fr''" for j
    using year_ids_found [OF that] found by blast
  have others: "textContent (elements w' ! j) = textContent (elements w ! j)"
    if "j < length (elements w)"
      "getElementById ''year'' w \<noteq> Some j \<and> getElementById ''year-fr'' w \<noteq> Some j" for j
    using that tx by simp
  have num: "0 \<le> fullYear w \<longrightarrow>
        int (decimal (String (fullYear w))) = fullYear w \<and>
        set (String (fullYear w)) \<subseteq> set ''0123456789''"
    using String_year [of "fullYear w"] by blast
  have four: "1000 \<le> fullYear w \<and> fullYear w \<le> 9999 \<longrightarrow> length (String (fullYear w)) = 4"
    using String_four [of "fullYear w"] by blast
  show ?thesis
    using i ids found present others num four by blast
qed

text \<open>On the example page in 2024, and on a page without year elements.\<close>

theorem init_stamps_year_witness:
  "year_ids_unique page \<and> getElementById ''year'' page = Some 2 \<and> getElementById ''year-fr'' page = Some 3 \<and>
   1000 \<le> fullYear page \<and> fullYear page \<le> 9999 \<and>
   (\<exists>w'. init page = Inr w' \<and>
      textContent (elements w' ! 2) = String (fullYear page) \<and>
      textContent (elements w' ! 3) = String (fullYear page) \<and>
      textContent (elements w' ! 0) = textContent (elements page ! 0)) \<and>
   int (decimal (String (fullYear page))) = fullYear page \<and>
   length (String (fullYear page)) = 4 \<and> String (fullYear page) = ''2024'' \<and>
   getElementById ''year'' mixed_page = None \<and> getElementById ''year-fr'' mixed_page = None \<and>
   (\<exists>w'. init mixed_page = Inr w' \<and>
      textContent (elements w' ! 0) = textContent (elements mixed_page ! 0))"
proof -
  have y: "getElementById ''year'' page = Some 2" "getElementById ''year-fr'' page = Some 3"
    by (simp_all add: getElementById_def page_defs)
  have n: "getElementById ''year'' mixed_page = None" "getElementById ''year-fr'' mixed_page = None"
    by (simp_all add: getElementById_def page_defs)
  have r: "1000 \<le> fullYear page" "fullYear page \<le> 9999" "0 \<le> fullYear page"
    by (simp_all add: page_def)
  have u: "year_ids_unique page"
    by (simp add: year_ids_unique_def page_defs)
  have t: "String (fullYear page) = ''2024''"
    by (simp add: page_def String_2024)
  have l: "0 < length (elements page)" "0 < length (elements mixed_page)"
    by (simp_all add: page_defs)
  have o: "getElementById ''year'' page \<noteq> Some 0 \<and> getElementById ''year-fr'' page \<noteq> Some 0"
    "getElementById ''year'' mixed_page \<noteq> Some 0 \<and> getElementById ''year-fr'' mixed_page \<noteq> Some 0"
    using y n by simp_all
  show ?thesis
    using init_stamps_year [of page] init_stamps_year [of mixed_page] y n r l o t u
    by (metis (no_types, lifting))
qed

section \<open>One language is active\<close>

text \<open>
  After a toggle from French on the page with a doubly tagged element, the attribute is
  \<open>en\<close> and the element is visible although it is tagged for the other language.
\<close>

theorem toggle_both_tags_counterexample:
  "\<not> returns_with (toggleLanguage mixed_page) one_language_active_exactly"
  by (simp add: toggleLanguage_eq setLang_eq returns_with_Inr one_language_active_exactly_def
      language_shown_exactly_def code_def page_defs restyle_def vocab_defs)

text \<open>
  C7, amended. From any state, each of \<open>setLang\<close> (for every argument), \<open>toggleLanguage\<close>
  and \<open>init\<close> returns with the \<open>lang\<close> attribute exactly \<open>en\<close> or \<open>fr\<close>, the elements
  keeping their class lists and the tagged ones showing that language: an element tagged
  for one language only is visible when that language is the active one and hidden
  otherwise, and an element tagged for both goes by its English tag. When no element
  carries both tags, every element tagged for the active language is visible and every
  element tagged for the other one is hidden.
\<close>

theorem one_language_active_after:
  "(\<exists>w'. setLang next w = Inr w' \<and> one_language_active w' \<and>
          map classList (elements w') = map classList (elements w) \<and>
          (single_tagged w \<longrightarrow> one_language_active_exactly w')) \<and>
   (\<exists>w'. toggleLanguage w = Inr w' \<and> one_language_active w' \<and>
          map classList (elements w') = map classList (elements w) \<and>
          (single_tagged w \<longrightarrow> one_language_active_exactly w')) \<and>
   (\<exists>w'. init w = Inr w' \<and> one_language_active w' \<and>
          map classList (elements w') = map classList (elements w) \<and>
          (single_tagged w \<longrightarrow> one_language_active_exactly w'))"
proof -
  have a: "\<exists>w'. setLang v w = Inr w' \<and> one_language_active w' \<and>
          map classList (elements w') = map classList (elements w) \<and>
          (single_tagged w \<longrightarrow> one_language_active_exactly w')" for v
  proof -
    have c: "code v = ''en'' \<or> code v = ''fr''" by (simp add: code_def)
    obtain w' where r: "setLang v w = Inr w'" "lang w' = code v" "language_shown (code v) w'"
      "map classList (elements w') = map classList (elements w)"
      "single_tagged w \<longrightarrow> language_shown_exactly (code v) w'"
      using setLang_result [of v w] by blast
    have "one_language_active w'"
      using c r(2,3) by (simp add: one_language_active_def)
    moreover have "single_tagged w \<longrightarrow> one_language_active_exactly w'"
      using c r(2,5) by (simp add: one_language_active_exactly_def)
    ultimately show ?thesis using r(1,4) by blast
  qed
  have i: "\<exists>w'. init w = Inr w' \<and> one_language_active w' \<and>
          map classList (elements w') = map classList (elements w) \<and>
          (single_tagged w \<longrightarrow> one_language_active_exactly w')"
  proof -
    let ?v = "if getItem ''portfolio_lang'' w = Inr (Some ''fr'') then ''fr'' else ''en''"
    have c: "?v = ''en'' \<or> ?v = ''fr''" by simp
    obtain w' where r: "init w = Inr w'" "lang w' = ?v" "language_shown ?v w'"
      "map classList (elements w') = map classList (elements w)"
      "single_tagged w \<longrightarrow> language_shown_exactly ?v w'"
      using init_result [of w] by blast
    have "one_language_active w'"
      using c r(2,3) by (simp add: one_language_active_def)
    moreover have "single_tagged w \<longrightarrow> one_language_active_exactly w'"
      using c r(2,5) by (simp add: one_language_active_exactly_def)
    ultimately show ?thesis using r(1,4) by blast
  qed
  show ?thesis
    using a [of "next"] a [of "if lang w = ''fr'' then ''en'' else ''fr''"] i
    by (simp only: toggleLanguage_eq)
qed

text \<open>
  On the example page, where English is showing and each of the three calls turns the page
  to French, and a toggle on the page with a doubly tagged element.
\<close>

theorem one_language_active_after_witness:
  "single_tagged page \<and> map display (elements page) = ['''', ''none'', '''', ''''] \<and>
   (\<exists>w'. setLang ''fr'' page = Inr w' \<and> one_language_active w' \<and>
          map classList (elements w') = map classList (elements page) \<and>
          one_language_active_exactly w' \<and>
          lang w' = ''fr'' \<and> map display (elements w') = [''none'', '''', '''', '''']) \<and>
   (\<exists>w'. toggleLanguage page = Inr w' \<and> one_language_active w' \<and>
          map classList (elements w') = map classList (elements page) \<and>
          one_language_active_exactly w' \<and>
          lang w' = ''fr'' \<and> map display (elements w') = [''none'', '''', '''', '''']) \<and>
   (\<exists>w'. init page = Inr w' \<and> one_language_active w' \<and>
          map classList (elements w') = map classList (elements page) \<and>
          one_language_active_exactly w' \<and>
          lang w' = ''fr'' \<and> map display (elements w') = [''none'', '''', '''', '''']) \<and>
   (\<exists>w'. toggleLanguage mixed_page = Inr w' \<and> one_language_active w' \<and>
          map classList (elements w') = map classList (elements mixed_page) \<and>
          lang w' = ''en'')"
  using one_language_active_after [of "''fr''" page] one_language_active_after [of "''fr''" mixed_page]
  by (simp add: run_defs shown_defs page_defs vocab_defs)

end
